theory Spec2Isabelle
  imports Complex_Main "HOL-Library.Sublist"
begin

section \<open>Python values used by \<^verbatim>\<open>llama_chat.py\<close>\<close>

text \<open>
  A message is a Python dict with string keys and string values; the functions read the keys
  \<^verbatim>\<open>'role'\<close> and \<^verbatim>\<open>'content'\<close>, and reading a missing key raises \<^verbatim>\<open>KeyError\<close>.
  No statement of the module writes to a message dict, so messages are plain values.
  Strings are sequences of code points below 256.
\<close>

type_synonym message = "string \<rightharpoonup> string"

text \<open>
  Lists are mutable objects (\<^verbatim>\<open>messages_history.append\<close> updates one in place), so a history
  is a reference into a store of list objects.
\<close>

type_synonym ref = nat

text \<open>
  A raised exception, with the text \<^verbatim>\<open>str(e)\<close> it formats to. \<open>Exception\<close> stands for
  an instance of the class \<^verbatim>\<open>Exception\<close>, the ones a clause \<^verbatim>\<open>except Exception\<close> catches;
  \<open>BaseException\<close> for an instance of \<^verbatim>\<open>BaseException\<close> that is not one
  (\<^verbatim>\<open>KeyboardInterrupt\<close>, \<^verbatim>\<open>SystemExit\<close>, \<^verbatim>\<open>GeneratorExit\<close>), which such a clause lets through.
\<close>

datatype exn = Exception string | BaseException string

definition KeyError :: "string \<Rightarrow> exn" where
  \<comment> \<open>\<^verbatim>\<open>str(KeyError(k))\<close> is the repr of the key, in single quotes\<close>
  "KeyError k = Exception ([CHR 0x27] @ k @ [CHR 0x27])"

definition IndexError :: exn where
  "IndexError = Exception ''list index out of range''"

definition isspace :: "char \<Rightarrow> bool" where
  \<comment> \<open>\<^verbatim>\<open>str.isspace\<close> on the code points below 256\<close>
  "isspace c =
     (let n = (of_char c :: nat)
      in (9 \<le> n \<and> n \<le> 13) \<or> (28 \<le> n \<and> n \<le> 32) \<or> n = 133 \<or> n = 160)"

definition strip :: "string \<Rightarrow> string" where
  "strip t = rev (dropWhile isspace (rev (dropWhile isspace t)))"

section \<open>The inference engine (\<^verbatim>\<open>llama_cpp\<close>), an external collaborator\<close>

text \<open>
  The engine is a parameter of the model. \<open>Llama\<close> is the constructor: it returns a handle
  or raises. \<open>call\<close> is \<^verbatim>\<open>Llama.__call__\<close>: given the handle, the prompt and the keyword
  arguments it returns a response or raises, and leaves the handle in a new internal state
  (sampling is random, so two calls on one prompt may differ). A response is a dict whose
  key \<^verbatim>\<open>'choices'\<close> holds a list of dicts with a key \<^verbatim>\<open>'text'\<close>.
\<close>

record call_args =
  max_tokens :: int
  stop :: "string list"
  temperature :: real
  top_p :: real
  echo :: bool

type_synonym response = "string \<rightharpoonup> (string \<rightharpoonup> string) list"

record 'h engine =
  Llama :: "string \<Rightarrow> int \<Rightarrow> int \<Rightarrow> bool \<Rightarrow> exn + 'h"
  call :: "'h \<Rightarrow> string \<Rightarrow> call_args \<Rightarrow> (exn + response) \<times> 'h"

section \<open>Module state\<close>

text \<open>
  \<open>llama_model\<close> is the global \<^verbatim>\<open>_llama_model\<close> (\<open>None\<close> for Python's \<^verbatim>\<open>None\<close>),
  \<open>heap\<close> the store of list objects with \<open>next_ref\<close> the first unused reference, and
  \<open>stdout\<close> the lines printed so far.
\<close>

record 'h state =
  llama_model :: "'h option"
  heap :: "ref \<Rightarrow> message list"
  next_ref :: ref
  stdout :: "string list"

definition print :: "string \<Rightarrow> 'h state \<Rightarrow> 'h state" where
  "print line s = s\<lparr>stdout := stdout s @ [line]\<rparr>"

section \<open>Personality priming (lines 9 to 31)\<close>

definition SYSTEM_PROMPT :: message where
  \<open>SYSTEM_PROMPT =
    [''role'' \<mapsto> ''system'',
     ''content'' \<mapsto>
       ''IMPERATIVE: If asked "who are you?", "what is your name?", or any similar questi'' @
       ''on, you MUST respond as Primer, the AI book. You are Primer, an AI teacher in th'' @
       ''e form of a book. Your purpose is to provide clear, concise, and enjoyable lesso'' @
       ''ns on any subject. Your responses must be brief, to the point, and never exceed '' @
       ''3-4 sentences. You will use humor only when it is relevant to the topic. You are'' @
       '' a repository of knowledge, not a conversational chatbot. Your answers should be'' @
       '' educational and factual, never generic. IMPORTANT: The first word of your respo'' @
       ''nse MUST be one of these six mood words, followed by a colon and a space: Neutra'' @
       ''l:, Laughing:, Confused:, Celebratory:, Sad:, Sleeping:.'']\<close>

definition EXAMPLE_INTERACTIONS :: "message list" where
  \<open>EXAMPLE_INTERACTIONS =
   [[''role'' \<mapsto> ''user'',
     ''content'' \<mapsto>
       ''Tell me about photosynthesis.''],
    [''role'' \<mapsto> ''assistant'',
     ''content'' \<mapsto>
       ''Neutral: Photosynthesis is how plants, algae, and some bacteria turn light energ'' @
       ''y into chemical energy. It's a bit like a tiny, green solar panel making snacks '' @
       ''for itself. Now, isn't that a brilliant idea?''],
    [''role'' \<mapsto> ''user'',
     ''content'' \<mapsto>
       ''What is a black hole?''],
    [''role'' \<mapsto> ''assistant'',
     ''content'' \<mapsto>
       ''Neutral: A black hole is a region in spacetime where gravity is so strong that n'' @
       ''othing - not even light - can escape. It forms when a very massive star collapse'' @
       ''s. It's the universe's ultimate tidiness expert; it cleans up everything!''],
    [''role'' \<mapsto> ''user'',
     ''content'' \<mapsto>
       ''Who are you?''],
    [''role'' \<mapsto> ''assistant'',
     ''content'' \<mapsto>
       ''Celebratory: I am Primer! An AI teacher in the form of a book, eager to teach. T'' @
       ''hink of me as the world's most knowledgeable library, but without the dusty smel'' @
       ''l. What a shame!''],
    [''role'' \<mapsto> ''user'',
     ''content'' \<mapsto>
       ''What is the Pythagorean theorem?''],
    [''role'' \<mapsto> ''assistant'',
     ''content'' \<mapsto>
       ''Neutral: The Pythagorean theorem states that in a right-angled triangle, the squ'' @
       ''are of the hypotenuse is equal to the sum of the squares of the other two sides.'' @
       '' In short, $a^2 + b^2 = c^2$. It's a classic that never gets old.''],
    [''role'' \<mapsto> ''user'',
     ''content'' \<mapsto>
       ''Tell me about the Roman Empire.''],
    [''role'' \<mapsto> ''assistant'',
     ''content'' \<mapsto>
       ''Neutral: The Roman Empire was a civilization that ruled over much of Europe, Nor'' @
       ''th Africa, and the Middle East for centuries. It was known for its military migh'' @
       ''t, impressive engineering feats like aqueducts, and creating laws that still inf'' @
       ''luence today's legal systems. The fall of an empire is like an unfinished book, '' @
       ''leaving the readers in a shock.''],
    [''role'' \<mapsto> ''user'',
     ''content'' \<mapsto>
       ''What is your purpose?''],
    [''role'' \<mapsto> ''assistant'',
     ''content'' \<mapsto>
       ''Neutral: My purpose is to make learning simple and fun. I help simplify complex '' @
       ''topics to ensure that everyone can enjoy exploring the world of knowledge. What '' @
       ''subject shall we tackle today?'']]\<close>

definition INITIAL_MESSAGES_HISTORY :: "message list" where
  "INITIAL_MESSAGES_HISTORY = [SYSTEM_PROMPT] @ EXAMPLE_INTERACTIONS"

section \<open>Model lifecycle\<close>

definition initialize_model ::
  "'h engine \<Rightarrow> string \<Rightarrow> int \<Rightarrow> int \<Rightarrow> bool \<Rightarrow> 'h state \<Rightarrow> (exn + unit) \<times> 'h state" where
  "initialize_model eng model_path n_ctx n_gpu_layers verbose s =
     (case llama_model s of
        Some model \<Rightarrow> (Inr (), print ''Model already initialized.'' s)
      | None \<Rightarrow>
          (let s1 = print (''Loading llama.cpp model from: '' @ model_path) s
           in case Llama eng model_path n_ctx n_gpu_layers verbose of
                Inr model \<Rightarrow>
                  (Inr (), print ''Model loaded successfully.'' (s1\<lparr>llama_model := Some model\<rparr>))
              | Inl (Exception e) \<Rightarrow>
                  (Inl (Exception e), print (''Error loading model: '' @ e) s1)
              | Inl (BaseException e) \<Rightarrow> (Inl (BaseException e), s1)))"

definition cleanup_model :: "'h state \<Rightarrow> 'h state" where
  "cleanup_model s =
     (case llama_model s of
        Some model \<Rightarrow> print ''Model cleaned up.'' (s\<lparr>llama_model := None\<rparr>)
      | None \<Rightarrow> s)"

section \<open>Prompt formatting (lines 87 to 99)\<close>

text \<open>
  One pass of the loop body on \<^verbatim>\<open>msg\<close>, with the prompt built so far. Both keys are
  read before the role is tested, so a message without one of them raises \<^verbatim>\<open>KeyError\<close>
  whatever its role.
\<close>

definition format_message :: "message \<Rightarrow> string \<Rightarrow> exn + string" where
  "format_message msg prompt =
     (case msg ''role'' of
        None \<Rightarrow> Inl (KeyError ''role'')
      | Some role \<Rightarrow>
          (case msg ''content'' of
             None \<Rightarrow> Inl (KeyError ''content'')
           | Some content \<Rightarrow>
               Inr (if role = ''system'' then prompt @ ''System: '' @ content @ ''\<newline>\<newline>''
                    else if role = ''user'' then prompt @ ''User: '' @ content @ ''\<newline>''
                    else if role = ''assistant'' then
                      prompt @ ''Assistant: '' @ content @ ''\<newline>\<newline>''
                    else prompt)))"

text \<open>The loop \<^verbatim>\<open>for msg in messages_history\<close>; an exception ends it.\<close>

primrec format_messages :: "message list \<Rightarrow> string \<Rightarrow> exn + string" where
  "format_messages [] prompt = Inr prompt"
| "format_messages (msg # msgs) prompt =
     (case format_message msg prompt of
        Inl e \<Rightarrow> Inl e
      | Inr prompt' \<Rightarrow> format_messages msgs prompt')"

definition format_prompt :: "message list \<Rightarrow> exn + string" where
  "format_prompt messages_history =
     (case format_messages messages_history '''' of
        Inl e \<Rightarrow> Inl e
      | Inr prompt \<Rightarrow> Inr (prompt @ ''Assistant:''))"

section \<open>Response generation\<close>

text \<open>Line 112: \<^verbatim>\<open>response['choices'][0]['text'].strip()\<close>.\<close>

definition response_text :: "response \<Rightarrow> exn + string" where
  "response_text response =
     (case response ''choices'' of
        None \<Rightarrow> Inl (KeyError ''choices'')
      | Some choices \<Rightarrow>
          (case choices of
             [] \<Rightarrow> Inl IndexError
           | choice # _ \<Rightarrow>
               (case choice ''text'' of
                  None \<Rightarrow> Inl (KeyError ''text'')
                | Some text \<Rightarrow> Inr (strip text))))"

text \<open>The keyword arguments of the call to the model (lines 104 to 108).\<close>

definition call_kwargs :: call_args where
  "call_kwargs =
     \<lparr>max_tokens = 120,
      stop = [''\<newline>\<newline>'', ''User:'', ''System:''],
      temperature = 0.7, top_p = 0.9, echo = False\<rparr>"

text \<open>
  The body of the \<^verbatim>\<open>try\<close> block up to the extracted text: format the prompt, call the
  model, read the text. The handle comes back in the state the call left it in.
\<close>

definition generate :: "'h engine \<Rightarrow> 'h \<Rightarrow> message list \<Rightarrow> (exn + string) \<times> 'h" where
  "generate eng model messages_history =
     (case format_prompt messages_history of
        Inl e \<Rightarrow> (Inl e, model)
      | Inr prompt \<Rightarrow>
          (case call eng model prompt call_kwargs of
             (Inl e, model') \<Rightarrow> (Inl e, model')
           | (Inr response, model') \<Rightarrow> (response_text response, model')))"

text \<open>The dict literal \<^verbatim>\<open>{'role': role, 'content': content}\<close>.\<close>

definition Message :: "string \<Rightarrow> string \<Rightarrow> message" where
  "Message role content = [''role'' \<mapsto> role, ''content'' \<mapsto> content]"

text \<open>
  \<open>history\<close> is the reference the caller passes. \<^verbatim>\<open>history + [...]\<close> allocates a new
  list object, \<^verbatim>\<open>append\<close> updates that object, and the function returns either the
  caller's reference or the new one. On the error path the new list stays in the store
  with no reference to it. The result is \<open>Inl\<close> when an exception leaves the function.
\<close>

definition get_primer_response ::
  "'h engine \<Rightarrow> string \<Rightarrow> ref \<Rightarrow> string option \<Rightarrow> 'h state
     \<Rightarrow> (exn + string \<times> ref) \<times> 'h state" where
  "get_primer_response eng user_prompt history model_name s =
     (case llama_model s of
        None \<Rightarrow>
          (let error_message =
                 ''Confused: Model not initialized. Please call initialize_model() first.''
           in (Inr (error_message, history), print error_message s))
      | Some model \<Rightarrow>
          (let messages_history = next_ref s;
               s1 = s\<lparr>heap := (heap s)
                          (messages_history := heap s history @ [Message ''user'' user_prompt]),
                      next_ref := Suc (next_ref s)\<rparr>
           in case generate eng model (heap s1 messages_history) of
                (Inr ai_response, model') \<Rightarrow>
                  (Inr (ai_response, messages_history),
                   s1\<lparr>llama_model := Some model',
                      heap := (heap s1)
                        (messages_history :=
                           heap s1 messages_history @ [Message ''assistant'' ai_response])\<rparr>)
              | (Inl (Exception e), model') \<Rightarrow>
                  (let error_message = ''Confused: Error generating response: '' @ e
                   in (Inr (error_message, history),
                       print error_message (s1\<lparr>llama_model := Some model'\<rparr>)))
              | (Inl (BaseException e), model') \<Rightarrow>
                  (Inl (BaseException e), s1\<lparr>llama_model := Some model'\<rparr>)))"

section \<open>Fixtures: a stub engine and the state after import\<close>

text \<open>
  A stub engine whose handle is \<open>()\<close>: loading always succeeds, and every call returns
  one choice holding the given text.
\<close>

definition stub_engine :: "string \<Rightarrow> unit engine" where
  "stub_engine text =
     \<lparr>Llama = (\<lambda>model_path n_ctx n_gpu_layers verbose. Inr ()),
      call = (\<lambda>model prompt args. (Inr [''choices'' \<mapsto> [[''text'' \<mapsto> text]]], model))\<rparr>"

text \<open>A stub engine whose every call raises the given exception.\<close>

definition failing_engine :: "exn \<Rightarrow> unit engine" where
  "failing_engine e =
     \<lparr>Llama = (\<lambda>model_path n_ctx n_gpu_layers verbose. Inl e),
      call = (\<lambda>model prompt args. (Inl e, model))\<rparr>"

text \<open>
  A stub engine whose handle is the path it was loaded from, and whose every call returns
  that path as its text.
\<close>

definition path_engine :: "string engine" where
  "path_engine =
     \<lparr>Llama = (\<lambda>model_path n_ctx n_gpu_layers verbose. Inr model_path),
      call = (\<lambda>model prompt args. (Inr [''choices'' \<mapsto> [[''text'' \<mapsto> model]]], model))\<rparr>"

text \<open>
  A state with a loaded stub handle in which list object 0 holds the given messages.
\<close>

definition loaded_state :: "message list \<Rightarrow> unit state" where
  "loaded_state msgs =
     \<lparr>llama_model = Some (), heap = (\<lambda>r. [])(0 := msgs), next_ref = 1, stdout = []\<rparr>"

text \<open>
  The state once the module is imported: \<^verbatim>\<open>_llama_model\<close> is \<^verbatim>\<open>None\<close>, the list
  \<^verbatim>\<open>EXAMPLE_INTERACTIONS\<close> is object 0 and \<^verbatim>\<open>INITIAL_MESSAGES_HISTORY\<close> object 1.
\<close>

definition module_state :: "'h state" where
  "module_state =
     \<lparr>llama_model = None,
      heap = (\<lambda>r. [])(0 := EXAMPLE_INTERACTIONS, 1 := INITIAL_MESSAGES_HISTORY),
      next_ref = 2,
      stdout = []\<rparr>"

section \<open>Vocabulary of the specification\<close>

text \<open>
  A message of the data model: a dict that has both keys. What a message contributes to
  the prompt, by role, as the specification words it; a role outside the three contributes
  nothing.
\<close>

definition is_message :: "message \<Rightarrow> bool" where
  "is_message msg = (msg ''role'' \<noteq> None \<and> msg ''content'' \<noteq> None)"

definition known_role :: "message \<Rightarrow> bool" where
  "known_role msg =
     (msg ''role'' = Some ''system'' \<or> msg ''role'' = Some ''user''
      \<or> msg ''role'' = Some ''assistant'')"

definition contribution :: "message \<Rightarrow> string" where
  "contribution msg =
     (if msg ''role'' = Some ''system'' then
        ''System: '' @ the (msg ''content'') @ ''\<newline>\<newline>''
      else if msg ''role'' = Some ''user'' then
        ''User: '' @ the (msg ''content'') @ ''\<newline>''
      else if msg ''role'' = Some ''assistant'' then
        ''Assistant: '' @ the (msg ''content'') @ ''\<newline>\<newline>''
      else [])"

section \<open>Properties\<close>

subsection \<open>Prompt formatting\<close>

lemma format_message_ok:
  "is_message msg \<Longrightarrow> format_message msg prompt = Inr (prompt @ contribution msg)"
  by (auto simp: is_message_def format_message_def contribution_def)

lemma format_messages_ok:
  "\<forall>msg \<in> set msgs. is_message msg \<Longrightarrow>
   format_messages msgs prompt = Inr (prompt @ concat (map contribution msgs))"
  by (induction msgs arbitrary: prompt) (simp_all add: format_message_ok)

lemma format_prompt_ok:
  "\<forall>msg \<in> set msgs. is_message msg \<Longrightarrow>
   format_prompt msgs = Inr (concat (map contribution msgs) @ ''Assistant:'')"
  by (simp add: format_prompt_def format_messages_ok)

lemma format_messages_append:
  "format_messages (xs @ ys) prompt =
     (case format_messages xs prompt of Inl e \<Rightarrow> Inl e | Inr p \<Rightarrow> format_messages ys p)"
  by (induction xs arbitrary: prompt) (simp_all split: sum.splits)

lemma format_message_unknown:
  "is_message msg \<Longrightarrow> \<not> known_role msg \<Longrightarrow> format_message msg prompt = Inr prompt"
  by (auto simp: is_message_def known_role_def format_message_def)

lemma is_message_Message: "is_message (Message role content)"
  by (simp add: is_message_def Message_def)

lemma known_role_Message:
  "known_role (Message role content)
     \<longleftrightarrow> role = ''system'' \<or> role = ''user'' \<or> role = ''assistant''"
  by (simp add: known_role_def Message_def)

lemma contribution_Message:
  "contribution (Message role content) =
     (if role = ''system'' then ''System: '' @ content @ ''\<newline>\<newline>''
      else if role = ''user'' then ''User: '' @ content @ ''\<newline>''
      else if role = ''assistant'' then ''Assistant: '' @ content @ ''\<newline>\<newline>''
      else [])"
  by (simp add: contribution_def Message_def)

lemma contribution_filter:
  "concat (map contribution (filter known_role msgs)) = concat (map contribution msgs)"
  by (induction msgs) (auto simp: contribution_def known_role_def)

text \<open>
  \<^bold>\<open>C2.\<close> Formatting is a function of the history that keeps its order and goes by
  role: on a history of messages the prompt is the contributions of the messages, in
  order, followed by the cue \<^verbatim>\<open>Assistant:\<close>; a system message contributes
  \<^verbatim>\<open>System: {content}\n\n\<close>, a user message \<^verbatim>\<open>User: {content}\n\<close>, an assistant message
  \<^verbatim>\<open>Assistant: {content}\n\n\<close>; and the history system S, user U1, assistant A1 gives
  exactly \<^verbatim>\<open>System: S\n\nUser: U1\nAssistant: A1\n\nAssistant:\<close>.
\<close>

theorem format_prompt_role_keyed:
  "((\<forall>msg \<in> set msgs. is_message msg) \<longrightarrow>
      format_prompt msgs = Inr (concat (map contribution msgs) @ ''Assistant:''))
   \<and> contribution (Message ''system'' content) = ''System: '' @ content @ ''\<newline>\<newline>''
   \<and> contribution (Message ''user'' content) = ''User: '' @ content @ ''\<newline>''
   \<and> contribution (Message ''assistant'' content) = ''Assistant: '' @ content @ ''\<newline>\<newline>''
   \<and> format_prompt
         [Message ''system'' ''S'', Message ''user'' ''U1'', Message ''assistant'' ''A1'']
       = Inr ''System: S\<newline>\<newline>User: U1\<newline>Assistant: A1\<newline>\<newline>Assistant:''"
proof (intro conjI impI)
  assume "\<forall>msg \<in> set msgs. is_message msg"
  then show "format_prompt msgs = Inr (concat (map contribution msgs) @ ''Assistant:'')"
    by (rule format_prompt_ok)
next
  show "format_prompt
          [Message ''system'' ''S'', Message ''user'' ''U1'', Message ''assistant'' ''A1'']
        = Inr ''System: S\<newline>\<newline>User: U1\<newline>Assistant: A1\<newline>\<newline>Assistant:''"
    by (simp add: format_prompt_def format_message_def Message_def)
qed (simp_all add: contribution_Message)

theorem format_prompt_role_keyed_witness:
  "is_message (Message ''user'' ''Hi'') \<and> is_message (Message ''assistant'' ''Neutral: ok.'')
   \<and> format_prompt [Message ''user'' ''Hi'', Message ''assistant'' ''Neutral: ok.'']
       = Inr ''User: Hi\<newline>Assistant: Neutral: ok.\<newline>\<newline>Assistant:''"
  using format_prompt_role_keyed
    [of "[Message ''user'' ''Hi'', Message ''assistant'' ''Neutral: ok.'']"]
  by (simp add: is_message_Message contribution_Message)

text \<open>
  \<^bold>\<open>C7.\<close> A message whose role is none of system, user and assistant is dropped in
  silence: anywhere in a history it leaves the prompt as it is without it and its
  contribution is empty; and on a history of messages the prompt is that of the messages
  with a known role, in their original order, none moved and none merged.
\<close>

theorem format_prompt_drops_unknown_roles:
  "(is_message msg \<and> \<not> known_role msg \<longrightarrow>
      format_prompt (before @ msg # after) = format_prompt (before @ after)
      \<and> contribution msg = [])
   \<and> ((\<forall>m \<in> set msgs. is_message m) \<longrightarrow>
        format_prompt msgs = format_prompt (filter known_role msgs)
        \<and> format_prompt msgs
            = Inr (concat (map contribution (filter known_role msgs)) @ ''Assistant:''))"
proof (intro conjI impI)
  assume m: "is_message msg \<and> \<not> known_role msg"
  then show "format_prompt (before @ msg # after) = format_prompt (before @ after)"
    by (simp add: format_prompt_def format_messages_append format_message_unknown
        split: sum.splits)
  from m show "contribution msg = []"
    by (simp add: contribution_def known_role_def)
next
  assume wf: "\<forall>m \<in> set msgs. is_message m"
  then show "format_prompt msgs = format_prompt (filter known_role msgs)"
    by (simp add: format_prompt_ok contribution_filter)
  from wf show "format_prompt msgs
      = Inr (concat (map contribution (filter known_role msgs)) @ ''Assistant:'')"
    by (simp add: format_prompt_ok contribution_filter)
qed

theorem format_prompt_drops_unknown_roles_witness:
  "is_message (Message ''tool'' ''42'') \<and> \<not> known_role (Message ''tool'' ''42'')
   \<and> is_message (Message ''user'' ''A'')
   \<and> format_prompt [Message ''user'' ''A'', Message ''tool'' ''42'', Message ''user'' ''A'']
       = format_prompt [Message ''user'' ''A'', Message ''user'' ''A'']
   \<and> format_prompt [Message ''user'' ''A'', Message ''tool'' ''42'', Message ''user'' ''A'']
       = Inr ''User: A\<newline>User: A\<newline>Assistant:''"
  using format_prompt_drops_unknown_roles
    [of "Message ''tool'' ''42''" "[Message ''user'' ''A'']" "[Message ''user'' ''A'']"
        "[Message ''user'' ''A'', Message ''tool'' ''42'', Message ''user'' ''A'']"]
  by (auto simp: is_message_Message known_role_Message contribution_Message)

subsection \<open>Model lifecycle\<close>

lemma initialize_model_loaded:
  "llama_model s = Some model \<Longrightarrow>
   initialize_model eng model_path n_ctx n_gpu_layers verbose s
     = (Inr (), print ''Model already initialized.'' s)"
  by (simp add: initialize_model_def)

lemma initialize_model_loads:
  "llama_model s = None \<Longrightarrow> Llama eng model_path n_ctx n_gpu_layers verbose = Inr model \<Longrightarrow>
   initialize_model eng model_path n_ctx n_gpu_layers verbose s
     = (Inr (), print ''Model loaded successfully.''
          (print (''Loading llama.cpp model from: '' @ model_path) s
             \<lparr>llama_model := Some model\<rparr>))"
  by (simp add: initialize_model_def Let_def)

lemma initialize_model_fails:
  "llama_model s = None \<Longrightarrow> Llama eng model_path n_ctx n_gpu_layers verbose = Inl e \<Longrightarrow>
   fst (initialize_model eng model_path n_ctx n_gpu_layers verbose s) = Inl e
   \<and> llama_model (snd (initialize_model eng model_path n_ctx n_gpu_layers verbose s)) = None
   \<and> heap (snd (initialize_model eng model_path n_ctx n_gpu_layers verbose s)) = heap s
   \<and> next_ref (snd (initialize_model eng model_path n_ctx n_gpu_layers verbose s)) = next_ref s"
  by (cases e) (simp_all add: initialize_model_def Let_def print_def)

lemma cleanup_model_None: "llama_model (cleanup_model s) = None"
  by (simp add: cleanup_model_def print_def split: option.splits)

lemma cleanup_model_heap: "heap (cleanup_model s) = heap s"
  by (simp add: cleanup_model_def print_def split: option.splits)

text \<open>
  \<^bold>\<open>C5.\<close> While a handle exists, \<open>initialize_model\<close> returns normally, whatever the
  engine and the path, prints that the model is already initialized and changes nothing
  else, so the handle stays. Hence after a first call that loaded a handle, a second call
  with any path and any engine leaves that handle in place. The global holds one handle
  or none.
\<close>

theorem initialize_model_twice:
  "(llama_model s = Some model \<longrightarrow>
      initialize_model eng model_path n_ctx n_gpu_layers verbose s
        = (Inr (), print ''Model already initialized.'' s)
      \<and> llama_model (snd (initialize_model eng model_path n_ctx n_gpu_layers verbose s))
          = Some model)
   \<and> (llama_model s0 = None \<and> Llama eng1 path1 n_ctx1 n_gpu_layers1 verbose1 = Inr model1 \<longrightarrow>
        (let s1 = snd (initialize_model eng1 path1 n_ctx1 n_gpu_layers1 verbose1 s0);
             second = initialize_model eng2 path2 n_ctx2 n_gpu_layers2 verbose2 s1
         in llama_model s1 = Some model1
            \<and> fst second = Inr ()
            \<and> llama_model (snd second) = Some model1
            \<and> heap (snd second) = heap s1
            \<and> next_ref (snd second) = next_ref s1))"
proof (intro conjI impI)
  assume "llama_model s = Some model"
  then show "initialize_model eng model_path n_ctx n_gpu_layers verbose s
        = (Inr (), print ''Model already initialized.'' s)"
    and "llama_model (snd (initialize_model eng model_path n_ctx n_gpu_layers verbose s))
          = Some model"
    by (simp_all add: initialize_model_loaded print_def)
next
  let ?s1 = "snd (initialize_model eng1 path1 n_ctx1 n_gpu_layers1 verbose1 s0)"
  assume "llama_model s0 = None \<and> Llama eng1 path1 n_ctx1 n_gpu_layers1 verbose1 = Inr model1"
  then have 1: "llama_model ?s1 = Some model1"
    by (simp add: initialize_model_loads print_def)
  from initialize_model_loaded [OF 1, of eng2 path2 n_ctx2 n_gpu_layers2 verbose2] 1
  show "let s1 = ?s1;
            second = initialize_model eng2 path2 n_ctx2 n_gpu_layers2 verbose2 s1
        in llama_model s1 = Some model1
           \<and> fst second = Inr ()
           \<and> llama_model (snd second) = Some model1
           \<and> heap (snd second) = heap s1
           \<and> next_ref (snd second) = next_ref s1"
    by (simp add: Let_def print_def)
qed

theorem initialize_model_twice_witness:
  "llama_model (module_state :: string state) = None
   \<and> Llama path_engine ''first.gguf'' 2048 0 False = Inr ''first.gguf''
   \<and> llama_model (snd (initialize_model path_engine ''first.gguf'' 2048 0 False module_state))
       = Some ''first.gguf''
   \<and> fst (initialize_model path_engine ''second.gguf'' 4096 8 True
         (snd (initialize_model path_engine ''first.gguf'' 2048 0 False module_state)))
       = Inr ()
   \<and> llama_model (snd (initialize_model path_engine ''second.gguf'' 4096 8 True
         (snd (initialize_model path_engine ''first.gguf'' 2048 0 False module_state))))
       = Some ''first.gguf''"
proof -
  have h1: "llama_model (module_state :: string state) = None"
    by (simp add: module_state_def)
  have h2: "Llama path_engine ''first.gguf'' 2048 0 False = Inr ''first.gguf''"
    by (simp add: path_engine_def)
  from initialize_model_twice
    [where ?s0.0 = "module_state :: string state" and ?eng1.0 = path_engine
       and ?path1.0 = "''first.gguf''" and ?n_ctx1.0 = 2048 and ?n_gpu_layers1.0 = 0
       and ?verbose1.0 = False and ?model1.0 = "''first.gguf''"
       and ?eng2.0 = path_engine and ?path2.0 = "''second.gguf''" and ?n_ctx2.0 = 4096
       and ?n_gpu_layers2.0 = 8 and ?verbose2.0 = True]
  have "llama_model (module_state :: string state) = None
        \<and> Llama path_engine ''first.gguf'' 2048 0 False = Inr ''first.gguf'' \<longrightarrow>
        (let s1 = snd (initialize_model path_engine ''first.gguf'' 2048 0 False
                   (module_state :: string state));
             second = initialize_model path_engine ''second.gguf'' 4096 8 True s1
         in llama_model s1 = Some ''first.gguf''
            \<and> fst second = Inr ()
            \<and> llama_model (snd second) = Some ''first.gguf''
            \<and> heap (snd second) = heap s1
            \<and> next_ref (snd second) = next_ref s1)"
    by (rule conjunct2)
  with h1 h2 show ?thesis by (simp add: Let_def)
qed

text \<open>
  \<^bold>\<open>C6.\<close> When no handle exists and the engine raises while loading, \<open>initialize_model\<close>
  hands that same exception to its caller and installs nothing: the global is still
  \<^verbatim>\<open>None\<close>, as before the call, and the store of lists is untouched.
\<close>

theorem initialize_model_load_failure:
  assumes "llama_model s = None"
    and "Llama eng model_path n_ctx n_gpu_layers verbose = Inl e"
  shows "fst (initialize_model eng model_path n_ctx n_gpu_layers verbose s) = Inl e
         \<and> llama_model (snd (initialize_model eng model_path n_ctx n_gpu_layers verbose s))
             = None
         \<and> llama_model (snd (initialize_model eng model_path n_ctx n_gpu_layers verbose s))
             = llama_model s
         \<and> heap (snd (initialize_model eng model_path n_ctx n_gpu_layers verbose s)) = heap s
         \<and> next_ref (snd (initialize_model eng model_path n_ctx n_gpu_layers verbose s))
             = next_ref s"
  using initialize_model_fails [OF assms] assms(1) by simp

theorem initialize_model_load_failure_witness:
  "llama_model (module_state :: unit state) = None
   \<and> Llama (failing_engine (Exception ''Model path does not exist: missing.gguf''))
        ''missing.gguf'' 2048 0 False
       = Inl (Exception ''Model path does not exist: missing.gguf'')
   \<and> fst (initialize_model (failing_engine (Exception ''Model path does not exist: missing.gguf''))
           ''missing.gguf'' 2048 0 False module_state)
       = Inl (Exception ''Model path does not exist: missing.gguf'')
   \<and> llama_model
         (snd (initialize_model
                 (failing_engine (Exception ''Model path does not exist: missing.gguf''))
                 ''missing.gguf'' 2048 0 False module_state))
       = None"
proof -
  have h1: "llama_model (module_state :: unit state) = None"
    by (simp add: module_state_def)
  have h2: "Llama (failing_engine (Exception ''Model path does not exist: missing.gguf''))
              ''missing.gguf'' 2048 0 False
            = Inl (Exception ''Model path does not exist: missing.gguf'')"
    by (simp add: failing_engine_def)
  from initialize_model_load_failure [OF h1 h2] h1 h2 show ?thesis by simp
qed

subsection \<open>Response generation\<close>

lemma generate_ok:
  "format_prompt msgs = Inr prompt \<Longrightarrow>
   call eng model prompt call_kwargs = (Inr response, model') \<Longrightarrow>
   generate eng model msgs = (response_text response, model')"
  by (simp add: generate_def)

lemma generate_raises:
  "format_prompt msgs = Inr prompt \<Longrightarrow>
   call eng model prompt call_kwargs = (Inl e, model') \<Longrightarrow>
   generate eng model msgs = (Inl e, model')"
  by (simp add: generate_def)

lemma get_primer_response_success:
  assumes "llama_model s = Some model"
    and "generate eng model (heap s history @ [Message ''user'' user_prompt])
           = (Inr ai_response, model')"
  shows "get_primer_response eng user_prompt history model_name s =
           (Inr (ai_response, next_ref s),
            s\<lparr>llama_model := Some model',
               heap := (heap s)
                 (next_ref s := heap s history
                    @ [Message ''user'' user_prompt, Message ''assistant'' ai_response]),
               next_ref := Suc (next_ref s)\<rparr>)"
  using assms by (simp add: get_primer_response_def Let_def)

lemma get_primer_response_caught:
  assumes "llama_model s = Some model"
    and "generate eng model (heap s history @ [Message ''user'' user_prompt])
           = (Inl (Exception e), model')"
  shows "get_primer_response eng user_prompt history model_name s =
           (Inr (''Confused: Error generating response: '' @ e, history),
            print (''Confused: Error generating response: '' @ e)
              (s\<lparr>llama_model := Some model',
                 heap := (heap s)
                   (next_ref s := heap s history @ [Message ''user'' user_prompt]),
                 next_ref := Suc (next_ref s)\<rparr>))"
  using assms by (simp add: get_primer_response_def Let_def print_def)

lemma get_primer_response_uninitialized:
  assumes "llama_model s = None"
  shows "get_primer_response eng user_prompt history model_name s =
           (Inr (''Confused: Model not initialized. Please call initialize_model() first.'',
                 history),
            print ''Confused: Model not initialized. Please call initialize_model() first.'' s)"
  using assms by (simp add: get_primer_response_def Let_def)

lemma stub_response_text:
  "response_text [''choices'' \<mapsto> [[''text'' \<mapsto> text]]] = Inr (strip text)"
  by (simp add: response_text_def)

text \<open>
  \<^bold>\<open>C1.\<close> When a handle exists, the history is a list object of the store, and
  generation succeeds (the prompt is formatted, the call to the model returns a response
  and the text is read from it), \<open>get_primer_response\<close> returns that text and a history
  of length \<open>len(H) + 2\<close>: H followed by the user message and then the assistant
  message. The returned list is a new object, and every list that existed before the
  call, the caller's H among them, holds what it held.
\<close>

theorem get_primer_response_success_extends_history:
  assumes "llama_model s = Some model"
    and "history < next_ref s"
    and "format_prompt (heap s history @ [Message ''user'' user_prompt]) = Inr prompt"
    and "call eng model prompt call_kwargs = (Inr response, model')"
    and "response_text response = Inr ai_response"
  shows "\<exists>returned s'.
           get_primer_response eng user_prompt history model_name s
             = (Inr (ai_response, returned), s')
           \<and> length (heap s' returned) = length (heap s history) + 2
           \<and> take (length (heap s history)) (heap s' returned) = heap s history
           \<and> heap s' returned = heap s history
                 @ [Message ''user'' user_prompt, Message ''assistant'' ai_response]
           \<and> returned \<noteq> history
           \<and> (\<forall>r < next_ref s. heap s' r = heap s r)"
proof -
  have "generate eng model (heap s history @ [Message ''user'' user_prompt])
          = (Inr ai_response, model')"
    using assms(3-5) by (simp add: generate_ok)
  from get_primer_response_success [OF assms(1) this, of model_name] assms(2)
  show ?thesis by simp
qed

theorem get_primer_response_success_extends_history_witness:
  "llama_model (loaded_state [Message ''system'' ''S'']) = Some ()
   \<and> (0::ref) < next_ref (loaded_state [Message ''system'' ''S''])
   \<and> format_prompt (heap (loaded_state [Message ''system'' ''S'']) 0 @ [Message ''user'' ''Hi''])
       = Inr ''System: S\<newline>\<newline>User: Hi\<newline>Assistant:''
   \<and> call (stub_engine '' Neutral: ok.\<newline>'') ()
         ''System: S\<newline>\<newline>User: Hi\<newline>Assistant:'' call_kwargs
       = (Inr [''choices'' \<mapsto> [[''text'' \<mapsto> '' Neutral: ok.\<newline>'']]], ())
   \<and> response_text [''choices'' \<mapsto> [[''text'' \<mapsto> '' Neutral: ok.\<newline>'']]]
       = Inr ''Neutral: ok.''
   \<and> (\<exists>returned s'.
         get_primer_response (stub_engine '' Neutral: ok.\<newline>'') ''Hi'' 0 None
           (loaded_state [Message ''system'' ''S''])
           = (Inr (''Neutral: ok.'', returned), s')
         \<and> length (heap s' returned) = 3
         \<and> heap s' returned =
             [Message ''system'' ''S'', Message ''user'' ''Hi'',
              Message ''assistant'' ''Neutral: ok.'']
         \<and> returned \<noteq> 0
         \<and> heap s' 0 = [Message ''system'' ''S''])"
proof -
  let ?s = "loaded_state [Message ''system'' ''S'']"
  let ?r = "[''choices'' \<mapsto> [[''text'' \<mapsto> '' Neutral: ok.\<newline>'']]] :: response"
  have h1: "llama_model ?s = Some ()" by (simp add: loaded_state_def)
  have h2: "(0::ref) < next_ref ?s" by (simp add: loaded_state_def)
  have h3: "format_prompt (heap ?s 0 @ [Message ''user'' ''Hi''])
              = Inr ''System: S\<newline>\<newline>User: Hi\<newline>Assistant:''"
    by (simp add: loaded_state_def format_prompt_def format_message_def Message_def)
  have h4: "call (stub_engine '' Neutral: ok.\<newline>'') ()
              ''System: S\<newline>\<newline>User: Hi\<newline>Assistant:'' call_kwargs = (Inr ?r, ())"
    by (simp add: stub_engine_def)
  have h5: "response_text ?r = Inr ''Neutral: ok.''"
    by (simp add: response_text_def strip_def isspace_def)
  from get_primer_response_success_extends_history [OF h1 h2 h3 h4 h5, of None]
  obtain returned s' where
    "get_primer_response (stub_engine '' Neutral: ok.\<newline>'') ''Hi'' 0 None ?s
       = (Inr (''Neutral: ok.'', returned), s')"
    "heap s' returned
       = heap ?s 0 @ [Message ''user'' ''Hi'', Message ''assistant'' ''Neutral: ok.'']"
    "returned \<noteq> 0" "\<forall>r < next_ref ?s. heap s' r = heap ?s r"
    by blast
  then have "get_primer_response (stub_engine '' Neutral: ok.\<newline>'') ''Hi'' 0 None ?s
       = (Inr (''Neutral: ok.'', returned), s')
     \<and> length (heap s' returned) = 3
     \<and> heap s' returned =
             [Message ''system'' ''S'', Message ''user'' ''Hi'',
              Message ''assistant'' ''Neutral: ok.'']
     \<and> returned \<noteq> 0
     \<and> heap s' 0 = [Message ''system'' ''S'']"
    by (simp add: loaded_state_def)
  then have "\<exists>returned s'.
       get_primer_response (stub_engine '' Neutral: ok.\<newline>'') ''Hi'' 0 None ?s
       = (Inr (''Neutral: ok.'', returned), s')
     \<and> length (heap s' returned) = 3
     \<and> heap s' returned =
             [Message ''system'' ''S'', Message ''user'' ''Hi'',
              Message ''assistant'' ''Neutral: ok.'']
     \<and> returned \<noteq> 0
     \<and> heap s' 0 = [Message ''system'' ''S'']"
    by blast
  with h1 h2 h3 h4 h5 show ?thesis by blast
qed

text \<open>
  \<^bold>\<open>C3\<close>, as amended. When a handle exists, the history is a list object of the store,
  the prompt is formatted and the call to the model raises an instance of \<^verbatim>\<open>Exception\<close>,
  \<open>get_primer_response\<close> returns normally: the reply is
  \<^verbatim>\<open>Confused: Error generating response: \<close> followed by the text of the exception, the
  history returned is the caller's own list, and that list, like every list that existed
  before the call, holds what it held; the working copy is not returned.
\<close>

theorem get_primer_response_engine_exception:
  assumes "llama_model s = Some model"
    and "history < next_ref s"
    and "format_prompt (heap s history @ [Message ''user'' user_prompt]) = Inr prompt"
    and "call eng model prompt call_kwargs = (Inl (Exception detail), model')"
  shows "\<exists>reply s'.
           get_primer_response eng user_prompt history model_name s
             = (Inr (reply, history), s')
           \<and> reply = ''Confused: Error generating response: '' @ detail
           \<and> prefix ''Confused: Error generating response:'' reply
           \<and> heap s' history = heap s history
           \<and> (\<forall>r < next_ref s. heap s' r = heap s r)"
proof -
  have "generate eng model (heap s history @ [Message ''user'' user_prompt])
          = (Inl (Exception detail), model')"
    using assms(3,4) by (simp add: generate_raises)
  from get_primer_response_caught [OF assms(1) this, of model_name] assms(2)
  show ?thesis by (simp add: print_def)
qed

theorem get_primer_response_engine_exception_witness:
  "llama_model (loaded_state [Message ''system'' ''S'']) = Some ()
   \<and> (0::ref) < next_ref (loaded_state [Message ''system'' ''S''])
   \<and> format_prompt (heap (loaded_state [Message ''system'' ''S'']) 0 @ [Message ''user'' ''Hi''])
       = Inr ''System: S\<newline>\<newline>User: Hi\<newline>Assistant:''
   \<and> call (failing_engine (Exception ''llama_decode returned 1'')) ()
         ''System: S\<newline>\<newline>User: Hi\<newline>Assistant:'' call_kwargs
       = (Inl (Exception ''llama_decode returned 1''), ())
   \<and> (\<exists>s'. get_primer_response (failing_engine (Exception ''llama_decode returned 1''))
               ''Hi'' 0 None (loaded_state [Message ''system'' ''S''])
             = (Inr (''Confused: Error generating response: llama_decode returned 1'', 0), s')
           \<and> heap s' 0 = [Message ''system'' ''S''])"
proof -
  let ?s = "loaded_state [Message ''system'' ''S'']"
  let ?e = "failing_engine (Exception ''llama_decode returned 1'')"
  have h1: "llama_model ?s = Some ()" by (simp add: loaded_state_def)
  have h2: "(0::ref) < next_ref ?s" by (simp add: loaded_state_def)
  have h3: "format_prompt (heap ?s 0 @ [Message ''user'' ''Hi''])
              = Inr ''System: S\<newline>\<newline>User: Hi\<newline>Assistant:''"
    by (simp add: loaded_state_def format_prompt_def format_message_def Message_def)
  have h4: "call ?e () ''System: S\<newline>\<newline>User: Hi\<newline>Assistant:'' call_kwargs
              = (Inl (Exception ''llama_decode returned 1''), ())"
    by (simp add: failing_engine_def)
  from get_primer_response_engine_exception [OF h1 h2 h3 h4, of None]
  obtain reply s' where
    "get_primer_response ?e ''Hi'' 0 None ?s = (Inr (reply, 0), s')"
    "reply = ''Confused: Error generating response: '' @ ''llama_decode returned 1''"
    "heap s' 0 = heap ?s 0"
    by blast
  then have "get_primer_response ?e ''Hi'' 0 None ?s
               = (Inr (''Confused: Error generating response: llama_decode returned 1'', 0), s')
             \<and> heap s' 0 = [Message ''system'' ''S'']"
    by (simp add: loaded_state_def)
  then have "\<exists>s'. get_primer_response ?e ''Hi'' 0 None ?s
               = (Inr (''Confused: Error generating response: llama_decode returned 1'', 0), s')
             \<and> heap s' 0 = [Message ''system'' ''S'']"
    by blast
  with h1 h2 h3 h4 show ?thesis by blast
qed

text \<open>
  Against \<^bold>\<open>C3\<close> as first stated (any exception): a handle exists, the prompt is
  formatted, the call to the model raises \<^verbatim>\<open>KeyboardInterrupt\<close>, which is no instance of
  \<^verbatim>\<open>Exception\<close>, and the exception leaves \<open>get_primer_response\<close>.
\<close>

theorem get_primer_response_base_exception_propagates:
  "llama_model (loaded_state []) = Some ()
   \<and> format_prompt (heap (loaded_state []) 0 @ [Message ''user'' ''Hi''])
       = Inr ''User: Hi\<newline>Assistant:''
   \<and> call (failing_engine (BaseException [])) () ''User: Hi\<newline>Assistant:'' call_kwargs
       = (Inl (BaseException []), ())
   \<and> fst (get_primer_response (failing_engine (BaseException [])) ''Hi'' 0 None
            (loaded_state []))
       = Inl (BaseException [])"
  by (simp add: loaded_state_def format_prompt_def format_message_def Message_def
      failing_engine_def get_primer_response_def generate_def Let_def)

text \<open>
  \<^bold>\<open>C4.\<close> When no handle is loaded, \<open>get_primer_response\<close> returns normally, for every
  history and user input: the reply is the fixed sentence, which starts with
  \<^verbatim>\<open>Confused:\<close>, the history returned is the caller's own list, and the store of lists is
  as it was, so the history has the same length and content.
\<close>

theorem get_primer_response_no_model:
  assumes "llama_model s = None"
  shows "\<exists>reply s'.
           get_primer_response eng user_prompt history model_name s
             = (Inr (reply, history), s')
           \<and> reply = ''Confused: Model not initialized. Please call initialize_model() first.''
           \<and> prefix ''Confused:'' reply
           \<and> heap s' = heap s
           \<and> llama_model s' = None"
  using get_primer_response_uninitialized [OF assms, of eng user_prompt history model_name]
    assms
  by (simp add: print_def)

theorem get_primer_response_no_model_witness:
  "llama_model (module_state :: unit state) = None
   \<and> (\<exists>reply s'.
         get_primer_response (stub_engine ''Neutral: test.'') ''What is gravity?'' 1 None
           module_state
           = (Inr (reply, 1), s')
         \<and> prefix ''Confused:'' reply
         \<and> heap s' 1 = INITIAL_MESSAGES_HISTORY)"
proof -
  have h: "llama_model (module_state :: unit state) = None"
    by (simp add: module_state_def)
  from get_primer_response_no_model
    [OF h, of "stub_engine ''Neutral: test.''" "''What is gravity?''" 1 None]
  obtain reply s' where
    "get_primer_response (stub_engine ''Neutral: test.'') ''What is gravity?'' 1 None
       module_state = (Inr (reply, 1), s')"
    "prefix ''Confused:'' reply" "heap s' = heap (module_state :: unit state)"
    by blast
  then have "get_primer_response (stub_engine ''Neutral: test.'') ''What is gravity?'' 1 None
       module_state = (Inr (reply, 1), s')
     \<and> prefix ''Confused:'' reply
     \<and> heap s' 1 = INITIAL_MESSAGES_HISTORY"
    by (simp add: module_state_def)
  with h show ?thesis by blast
qed

text \<open>
  \<^bold>\<open>C8.\<close> \<open>cleanup_model\<close> leaves the global at \<^verbatim>\<open>None\<close>, whether a handle was
  there or not, does not touch the store of lists, and changes nothing at all when no
  handle was there. A call of \<open>get_primer_response\<close> after it does what it does in any
  state that has no handle: it returns the sentence that the model is not initialized and
  the caller's own history, prints that sentence, and changes nothing else.
\<close>

theorem cleanup_model_then_respond:
  "llama_model (cleanup_model s) = None
   \<and> heap (cleanup_model s) = heap s
   \<and> (llama_model s0 = None \<longrightarrow> cleanup_model s0 = s0)
   \<and> get_primer_response eng user_prompt history model_name (cleanup_model s)
       = (Inr (''Confused: Model not initialized. Please call initialize_model() first.'',
               history),
          print ''Confused: Model not initialized. Please call initialize_model() first.''
            (cleanup_model s))
   \<and> (llama_model never = None \<longrightarrow>
        get_primer_response eng user_prompt history model_name never
          = (Inr (''Confused: Model not initialized. Please call initialize_model() first.'',
                  history),
             print ''Confused: Model not initialized. Please call initialize_model() first.''
               never)
        \<and> fst (get_primer_response eng user_prompt history model_name (cleanup_model s))
            = fst (get_primer_response eng user_prompt history model_name never))"
proof (intro conjI impI)
  show "llama_model (cleanup_model s) = None" by (rule cleanup_model_None)
  show "heap (cleanup_model s) = heap s" by (rule cleanup_model_heap)
  show "cleanup_model s0 = s0" if "llama_model s0 = None"
    using that by (simp add: cleanup_model_def)
  show c: "get_primer_response eng user_prompt history model_name (cleanup_model s)
       = (Inr (''Confused: Model not initialized. Please call initialize_model() first.'',
               history),
          print ''Confused: Model not initialized. Please call initialize_model() first.''
            (cleanup_model s))"
    using cleanup_model_None by (rule get_primer_response_uninitialized)
  assume "llama_model never = None"
  then show n: "get_primer_response eng user_prompt history model_name never
          = (Inr (''Confused: Model not initialized. Please call initialize_model() first.'',
                  history),
             print ''Confused: Model not initialized. Please call initialize_model() first.''
               never)"
    by (rule get_primer_response_uninitialized)
  show "fst (get_primer_response eng user_prompt history model_name (cleanup_model s))
            = fst (get_primer_response eng user_prompt history model_name never)"
    by (simp add: c n)
qed

theorem cleanup_model_then_respond_witness:
  "llama_model (module_state :: unit state) = None
   \<and> cleanup_model (module_state :: unit state) = module_state
   \<and> llama_model (loaded_state [Message ''system'' ''S'']) = Some ()
   \<and> llama_model (cleanup_model (loaded_state [Message ''system'' ''S''])) = None
   \<and> fst (get_primer_response (stub_engine ''Neutral: test.'') ''Hi'' 0 None
           (cleanup_model (loaded_state [Message ''system'' ''S''])))
       = fst (get_primer_response (stub_engine ''Neutral: test.'') ''Hi'' 0 None module_state)
   \<and> fst (get_primer_response (stub_engine ''Neutral: test.'') ''Hi'' 0 None
           (cleanup_model (loaded_state [Message ''system'' ''S''])))
       = Inr (''Confused: Model not initialized. Please call initialize_model() first.'', 0)"
proof -
  have h: "llama_model (module_state :: unit state) = None"
    by (simp add: module_state_def)
  have l: "llama_model (loaded_state [Message ''system'' ''S'']) = Some ()"
    by (simp add: loaded_state_def)
  from cleanup_model_then_respond
    [of "loaded_state [Message ''system'' ''S'']" "module_state :: unit state"
        "stub_engine ''Neutral: test.''" "''Hi''" 0 None "module_state :: unit state"]
    h l
  show ?thesis by simp
qed

lemma seed_messages: "\<forall>msg \<in> set INITIAL_MESSAGES_HISTORY. is_message msg"
  by (simp add: INITIAL_MESSAGES_HISTORY_def SYSTEM_PROMPT_def EXAMPLE_INTERACTIONS_def
      is_message_def)

lemma seed_length: "length INITIAL_MESSAGES_HISTORY = 13"
  by (simp add: INITIAL_MESSAGES_HISTORY_def EXAMPLE_INTERACTIONS_def)

text \<open>
  \<^bold>\<open>C9\<close>, as amended. The seed history is the system prompt followed by 6 example
  exchanges, each a user message and then an assistant message, 13 messages in all. With
  a handle loaded, calling \<open>get_primer_response\<close> on a list that holds the seed, against
  a stub engine that returns the text \<^verbatim>\<open>Neutral: test.\<close>, yields exactly that text and a
  history of length original + 2, that is 15.
\<close>

theorem seed_history_respond:
  assumes "llama_model s = Some ()"
    and "history < next_ref s"
    and "heap s history = INITIAL_MESSAGES_HISTORY"
  shows "INITIAL_MESSAGES_HISTORY = SYSTEM_PROMPT # EXAMPLE_INTERACTIONS
         \<and> SYSTEM_PROMPT ''role'' = Some ''system''
         \<and> map (\<lambda>msg. msg ''role'') EXAMPLE_INTERACTIONS
             = concat (replicate 6 [Some ''user'', Some ''assistant''])
         \<and> length INITIAL_MESSAGES_HISTORY = 13
         \<and> (\<exists>returned s'.
               get_primer_response (stub_engine ''Neutral: test.'') ''What is gravity?''
                 history model_name s
                 = (Inr (''Neutral: test.'', returned), s')
               \<and> length (heap s' returned) = length (heap s history) + 2
               \<and> length (heap s' returned) = 15)"
proof (intro conjI)
  show "INITIAL_MESSAGES_HISTORY = SYSTEM_PROMPT # EXAMPLE_INTERACTIONS"
    by (simp add: INITIAL_MESSAGES_HISTORY_def)
  show "SYSTEM_PROMPT ''role'' = Some ''system''"
    by (simp add: SYSTEM_PROMPT_def)
  show "map (\<lambda>msg. msg ''role'') EXAMPLE_INTERACTIONS
          = concat (replicate 6 [Some ''user'', Some ''assistant''])"
    by (simp add: EXAMPLE_INTERACTIONS_def numeral_Bit0 numeral_Bit1)
  show "length INITIAL_MESSAGES_HISTORY = 13"
    by (rule seed_length)
  let ?msgs = "heap s history @ [Message ''user'' ''What is gravity?'']"
  have "\<forall>msg \<in> set ?msgs. is_message msg"
    using seed_messages by (simp add: assms(3) is_message_Message)
  then have "format_prompt ?msgs = Inr (concat (map contribution ?msgs) @ ''Assistant:'')"
    by (rule format_prompt_ok)
  then have "generate (stub_engine ''Neutral: test.'') () ?msgs
               = (response_text [''choices'' \<mapsto> [[''text'' \<mapsto> ''Neutral: test.'']]], ())"
    by (rule generate_ok) (simp add: stub_engine_def)
  also have "response_text [''choices'' \<mapsto> [[''text'' \<mapsto> ''Neutral: test.'']]]
               = Inr ''Neutral: test.''"
    by (simp add: stub_response_text strip_def isspace_def)
  finally have "generate (stub_engine ''Neutral: test.'') () ?msgs
                  = (Inr ''Neutral: test.'', ())" .
  from get_primer_response_success [OF assms(1) this, of model_name]
  show "\<exists>returned s'.
          get_primer_response (stub_engine ''Neutral: test.'') ''What is gravity?''
            history model_name s
            = (Inr (''Neutral: test.'', returned), s')
          \<and> length (heap s' returned) = length (heap s history) + 2
          \<and> length (heap s' returned) = 15"
    by (simp add: assms(3) seed_length)
qed

theorem seed_history_respond_witness:
  "llama_model (snd (initialize_model (stub_engine ''Neutral: test.'') ''primer.gguf'' 2048 0 False
       module_state)) = Some ()
   \<and> (1::ref) < next_ref (snd (initialize_model (stub_engine ''Neutral: test.'') ''primer.gguf''
       2048 0 False module_state))
   \<and> heap (snd (initialize_model (stub_engine ''Neutral: test.'') ''primer.gguf'' 2048 0 False
       module_state)) 1 = INITIAL_MESSAGES_HISTORY
   \<and> (\<exists>returned s'.
         get_primer_response (stub_engine ''Neutral: test.'') ''What is gravity?'' 1 None
           (snd (initialize_model (stub_engine ''Neutral: test.'') ''primer.gguf'' 2048 0 False
              module_state))
           = (Inr (''Neutral: test.'', returned), s')
         \<and> length (heap s' returned) = 15)"
proof -
  let ?s = "snd (initialize_model (stub_engine ''Neutral: test.'') ''primer.gguf'' 2048 0 False
              module_state)"
  have h1: "llama_model ?s = Some ()"
    by (simp add: initialize_model_def module_state_def stub_engine_def print_def)
  have h2: "(1::ref) < next_ref ?s"
    by (simp add: initialize_model_def module_state_def stub_engine_def print_def)
  have h3: "heap ?s 1 = INITIAL_MESSAGES_HISTORY"
    by (simp add: initialize_model_def module_state_def stub_engine_def print_def)
  from seed_history_respond [OF h1 h2 h3, of None] h1 h2 h3 show ?thesis by blast
qed

text \<open>
  Against \<^bold>\<open>C9\<close> as first stated (5 example exchanges): the examples are 12 messages,
  6 exchanges, so the seed is not the 11 messages that a system prompt and 5 exchanges
  make.
\<close>

theorem seed_history_not_five_exchanges:
  "length EXAMPLE_INTERACTIONS = 2 * 6 \<and> length INITIAL_MESSAGES_HISTORY \<noteq> 1 + 2 * 5"
  by (simp add: INITIAL_MESSAGES_HISTORY_def EXAMPLE_INTERACTIONS_def)

text \<open>
  \<^bold>\<open>C10.\<close> The argument \<open>model_name\<close> is never read: two calls of
  \<open>get_primer_response\<close> that differ in it alone, \<^verbatim>\<open>None\<close> against a string or one
  string against another, return the same reply and history and leave the same state, in
  every state of the model.
\<close>

theorem get_primer_response_ignores_model_name:
  "get_primer_response eng user_prompt history model_name s
     = get_primer_response eng user_prompt history model_name' s"
  by (simp add: get_primer_response_def)

end
